theory Spec2Isabelle
  imports Complex_Main "HOL-Library.Word"
begin

section \<open>The latest-ledger processor (core/processor.go)\<close>

text \<open>
  A shallow embedding of \<^verbatim>\<open>core.Processor.ProcessLedger\<close> and its helpers.

  Integers. A field of Go type \<^verbatim>\<open>int\<close> is a counter that grows by one per read, or by the
  length of a slice held in memory; it cannot reach \<open>2^63\<close> and is modelled as \<open>int\<close>.
  The \<^verbatim>\<open>int64\<close>, \<^verbatim>\<open>uint64\<close> and \<^verbatim>\<open>uint32\<close> fields take or add
  values that come from the ledger itself and range over the whole type; they are words, and
  \<open>+\<close> on them wraps around as it does in Go.

  Floating point. \<^verbatim>\<open>float64\<close> is modelled by \<open>real\<close>: the comparisons that select
  a branch are exact (the sign of a duration survives the conversion to seconds), the
  quotient is the exact one that Go rounds to the nearest \<^verbatim>\<open>float64\<close>.

  Logging (\<^verbatim>\<open>log.Printf\<close>) and \<^verbatim>\<open>txReader.Close\<close> do not influence any returned
  value and are left out.
\<close>

subsection \<open>Time (Go's time package, as far as the processor uses it)\<close>

text \<open>
  A \<^verbatim>\<open>time.Time\<close> is an instant, counted here in nanoseconds from Go's zero instant
  (January 1, year 1, 00:00:00 UTC), so the zero value of the type is \<open>0\<close>.
  A \<^verbatim>\<open>time.Duration\<close> is an \<^verbatim>\<open>int64\<close> count of nanoseconds.
\<close>

type_synonym Time = int
type_synonym Duration = int

definition zeroTime :: Time where
  "zeroTime = 0"

definition IsZero :: "Time \<Rightarrow> bool" where
  "IsZero t = (t = 0)"

definition minDuration :: Duration where
  "minDuration = - (2 ^ 63)"

definition maxDuration :: Duration where
  "maxDuration = 2 ^ 63 - 1"

text \<open>\<^verbatim>\<open>t.Sub(u)\<close>: the difference \<open>t - u\<close>; out of the range of a Duration it is the
  minimum or the maximum Duration.\<close>

definition Sub :: "Time \<Rightarrow> Time \<Rightarrow> Duration" where
  "Sub t u =
     (if minDuration \<le> t - u \<and> t - u \<le> maxDuration then t - u
      else if t < u then minDuration
      else maxDuration)"

text \<open>\<^verbatim>\<open>d.Seconds()\<close>: the duration as a floating-point number of seconds.\<close>

definition Seconds :: "Duration \<Rightarrow> real" where
  "Seconds d = real_of_int d / 1000000000"

subsection \<open>The XDR values the processor reads\<close>

datatype Operation = Operation nat

record SorobanResources =
  Instructions :: "32 word"
  ReadBytes :: "32 word"
  WriteBytes :: "32 word"

record SorobanTransactionData =
  Resources :: SorobanResources
  ResourceFee :: "64 word"

text \<open>The zero value that Go returns beside \<^verbatim>\<open>false\<close>.\<close>

definition zeroSorobanTransactionData :: SorobanTransactionData where
  "zeroSorobanTransactionData =
     \<lparr>Resources = \<lparr>Instructions = 0, ReadBytes = 0, WriteBytes = 0\<rparr>, ResourceFee = 0\<rparr>"

text \<open>\<^verbatim>\<open>xdr.TransactionExt\<close>: a union on \<^verbatim>\<open>V\<close>; arm 1 carries the Soroban data.\<close>

datatype TransactionExt = ExtV0 | ExtV1 SorobanTransactionData

fun GetSorobanData :: "TransactionExt \<Rightarrow> SorobanTransactionData \<times> bool" where
  "GetSorobanData (ExtV1 d) = (d, True)"
| "GetSorobanData ExtV0 = (zeroSorobanTransactionData, False)"

record TransactionV0 =
  V0_Operations :: "Operation list"

record Transaction =
  Tx_Operations :: "Operation list"
  Ext :: TransactionExt

text \<open>A fee-bump transaction wraps one inner version-1 transaction
  (\<^verbatim>\<open>FeeBump.Tx.InnerTx.V1.Tx\<close>).\<close>

record FeeBumpTransaction =
  InnerTx :: Transaction

text \<open>\<^verbatim>\<open>xdr.TransactionEnvelope\<close>: a union on the envelope type, with three arms.\<close>

datatype TransactionEnvelope =
    EnvelopeTypeTxV0 TransactionV0
  | EnvelopeTypeTx Transaction
  | EnvelopeTypeTxFeeBump FeeBumpTransaction

text \<open>\<^verbatim>\<open>tx.Envelope.Operations()\<close>.\<close>

fun Operations :: "TransactionEnvelope \<Rightarrow> Operation list" where
  "Operations (EnvelopeTypeTxFeeBump fb) = Tx_Operations (InnerTx fb)"
| "Operations (EnvelopeTypeTx t) = Tx_Operations t"
| "Operations (EnvelopeTypeTxV0 t) = V0_Operations t"

text \<open>The result of a transaction: \<^verbatim>\<open>tx.Result.Result.FeeCharged\<close> and what
  \<^verbatim>\<open>tx.Result.Successful()\<close> answers.\<close>

record TransactionResult =
  FeeCharged :: "64 word"
  Successful :: bool

text \<open>\<^verbatim>\<open>ingest.LedgerTransaction\<close>.\<close>

record LedgerTransaction =
  Envelope :: TransactionEnvelope
  Result :: TransactionResult

subsection \<open>The ledger as the processor observes it\<close>

text \<open>
  One call of \<^verbatim>\<open>txReader.Read()\<close> before \<^verbatim>\<open>io.EOF\<close> returns a transaction or an
  error with a message. The reader of a ledger is the list of these returns, in order;
  \<^verbatim>\<open>io.EOF\<close> is the end of the list.
\<close>

datatype ReadResult = ReadTx LedgerTransaction | ReadErr string

text \<open>
  \<^verbatim>\<open>xdr.LedgerCloseMeta\<close>, through the calls the processor makes on it:
  \<^verbatim>\<open>ingest.NewLedgerTransactionReaderFromLedgerCloseMeta\<close> (given the network passphrase;
  an error message or a reader) and \<^verbatim>\<open>ledger.Sequence\<close>, \<^verbatim>\<open>ledger.Hash\<close>,
  \<^verbatim>\<open>ledger.BaseFee\<close>, \<^verbatim>\<open>ledger.ClosedAt\<close>.
\<close>

record LedgerCloseMeta =
  NewLedgerTransactionReader :: "string \<Rightarrow> string + ReadResult list"
  ledger_Sequence :: "32 word"
  ledger_Hash :: string
  ledger_BaseFee :: "32 word"
  ledger_ClosedAt :: Time

subsection \<open>strings.Contains\<close>

fun HasPrefix :: "string \<Rightarrow> string \<Rightarrow> bool" where
  "HasPrefix s [] = True"
| "HasPrefix [] (c # cs) = False"
| "HasPrefix (x # xs) (c # cs) = (x = c \<and> HasPrefix xs cs)"

fun Contains :: "string \<Rightarrow> string \<Rightarrow> bool" where
  "Contains [] substr = HasPrefix [] substr"
| "Contains (x # xs) substr = (HasPrefix (x # xs) substr \<or> Contains xs substr)"

subsection \<open>The processor's types\<close>

record LatestLedger =
  Sequence :: "32 word"
  Hash :: string
  TransactionCount :: int
  TxSetOperationCount :: int
  SuccessfulOperationCount :: int
  SuccessfulTxCount :: int
  FailedTxCount :: int
  TotalFeeCharged :: "64 word"
  ClosedAt :: Time
  BaseFee :: "32 word"
  TransactionsPerSecond :: real
  SorobanTxCount :: int
  TotalSorobanFees :: "64 word"
  TotalResourceInstructions :: "64 word"
  SkippedTxCount :: int
  UnknownTxCount :: int

record sorobanMetrics =
  resourceFee :: "64 word"
  instructions :: "32 word"
  readBytes :: "32 word"
  writeBytes :: "32 word"

record Config =
  Config_NetworkPassphrase :: string

record Processor =
  NetworkPassphrase :: string
  PreviousLedgerCloseTime :: Time

definition NewProcessor :: "Config \<Rightarrow> Processor" where
  "NewProcessor config =
     \<lparr>NetworkPassphrase = Config_NetworkPassphrase config,
      PreviousLedgerCloseTime = zeroTime\<rparr>"

subsection \<open>Soroban helpers\<close>

fun hasSorobanTransaction :: "LedgerTransaction \<Rightarrow> bool" where
  "hasSorobanTransaction tx =
     (case Envelope tx of
        EnvelopeTypeTx v1 \<Rightarrow> snd (GetSorobanData (Ext v1))
      | EnvelopeTypeTxFeeBump fb \<Rightarrow> snd (GetSorobanData (Ext (InnerTx fb)))
      | EnvelopeTypeTxV0 v0 \<Rightarrow> False)"

definition getSorobanMetrics :: "LedgerTransaction \<Rightarrow> sorobanMetrics" where
  "getSorobanMetrics tx =
     (let sorobanData =
        (case Envelope tx of
           EnvelopeTypeTx v1 \<Rightarrow> fst (GetSorobanData (Ext v1))
         | EnvelopeTypeTxFeeBump fb \<Rightarrow> fst (GetSorobanData (Ext (InnerTx fb)))
         | EnvelopeTypeTxV0 v0 \<Rightarrow> zeroSorobanTransactionData)
      in \<lparr>resourceFee = ResourceFee sorobanData,
          instructions = Instructions (Resources sorobanData),
          readBytes = ReadBytes (Resources sorobanData),
          writeBytes = WriteBytes (Resources sorobanData)\<rparr>)"

subsection \<open>ProcessLedger\<close>

text \<open>The metrics before the first read: the four ledger fields, every counter zero.\<close>

definition initial_metrics :: "LedgerCloseMeta \<Rightarrow> LatestLedger" where
  "initial_metrics ledgerCloseMeta =
     \<lparr>Sequence = ledger_Sequence ledgerCloseMeta,
      Hash = ledger_Hash ledgerCloseMeta,
      TransactionCount = 0,
      TxSetOperationCount = 0,
      SuccessfulOperationCount = 0,
      SuccessfulTxCount = 0,
      FailedTxCount = 0,
      TotalFeeCharged = 0,
      ClosedAt = ledger_ClosedAt ledgerCloseMeta,
      BaseFee = ledger_BaseFee ledgerCloseMeta,
      TransactionsPerSecond = 0,
      SorobanTxCount = 0,
      TotalSorobanFees = 0,
      TotalResourceInstructions = 0,
      SkippedTxCount = 0,
      UnknownTxCount = 0\<rparr>"

text \<open>The branch of the loop for a read that failed with "unknown tx hash".\<close>

definition count_unknown :: "LatestLedger \<Rightarrow> LatestLedger" where
  "count_unknown metrics =
     metrics\<lparr>TransactionCount := TransactionCount metrics + 1,
             FailedTxCount := FailedTxCount metrics + 1,
             UnknownTxCount := UnknownTxCount metrics + 1\<rparr>"

text \<open>The Soroban part of the loop body.\<close>

definition count_soroban :: "LatestLedger \<Rightarrow> LedgerTransaction \<Rightarrow> LatestLedger" where
  "count_soroban metrics tx =
     (if hasSorobanTransaction tx then
        (let sMetrics = getSorobanMetrics tx in
           metrics\<lparr>SorobanTxCount := SorobanTxCount metrics + 1,
                   TotalSorobanFees := TotalSorobanFees metrics + resourceFee sMetrics,
                   TotalResourceInstructions :=
                     TotalResourceInstructions metrics + ucast (instructions sMetrics)\<rparr>)
      else metrics)"

text \<open>The loop body for a transaction that was read.\<close>

definition count_tx :: "LatestLedger \<Rightarrow> LedgerTransaction \<Rightarrow> LatestLedger" where
  "count_tx metrics tx =
     (let operationCount = int (length (Operations (Envelope tx)));
          m1 = metrics\<lparr>TransactionCount := TransactionCount metrics + 1,
                       TxSetOperationCount := TxSetOperationCount metrics + operationCount,
                       TotalFeeCharged := TotalFeeCharged metrics + FeeCharged (Result tx)\<rparr>;
          m2 = (if Successful (Result tx)
                then m1\<lparr>SuccessfulTxCount := SuccessfulTxCount m1 + 1,
                        SuccessfulOperationCount := SuccessfulOperationCount m1 + operationCount\<rparr>
                else m1\<lparr>FailedTxCount := FailedTxCount m1 + 1\<rparr>)
      in count_soroban m2 tx)"

text \<open>The \<^verbatim>\<open>for\<close> loop over the reader: it ends at \<^verbatim>\<open>io.EOF\<close> with the metrics, or at
  the first error that is not an "unknown tx hash" with that error wrapped.\<close>

fun read_loop :: "LatestLedger \<Rightarrow> ReadResult list \<Rightarrow> string + LatestLedger" where
  "read_loop metrics [] = Inr metrics"
| "read_loop metrics (ReadErr err # txReader) =
     (if Contains err ''unknown tx hash''
      then read_loop (count_unknown metrics) txReader
      else Inl (''error reading transaction: '' @ err))"
| "read_loop metrics (ReadTx tx # txReader) = read_loop (count_tx metrics tx) txReader"

text \<open>The rate, from the processor's stored close time and the scanned metrics.\<close>

definition rate :: "Processor \<Rightarrow> LatestLedger \<Rightarrow> real" where
  "rate p metrics =
     (if \<not> IsZero (PreviousLedgerCloseTime p) then
        (let timeDiff = Seconds (Sub (ClosedAt metrics) (PreviousLedgerCloseTime p)) in
           if timeDiff > 0
           then real_of_int (SuccessfulOperationCount metrics) / timeDiff
           else real_of_int (SuccessfulOperationCount metrics) / 5)
      else real_of_int (SuccessfulOperationCount metrics) / 5)"

text \<open>
  \<^verbatim>\<open>ProcessLedger\<close> returns the pair of Go (an error or the metrics) and, beside it, the
  processor after the call: the method has a pointer receiver and assigns to
  \<^verbatim>\<open>p.PreviousLedgerCloseTime\<close>.
\<close>

definition ProcessLedger ::
  "Processor \<Rightarrow> LedgerCloseMeta \<Rightarrow> (string + LatestLedger) \<times> Processor" where
  "ProcessLedger p ledgerCloseMeta =
     (case NewLedgerTransactionReader ledgerCloseMeta (NetworkPassphrase p) of
        Inl err \<Rightarrow> (Inl (''error creating transaction reader: '' @ err), p)
      | Inr txReader \<Rightarrow>
          (case read_loop (initial_metrics ledgerCloseMeta) txReader of
             Inl err \<Rightarrow> (Inl err, p)
           | Inr metrics \<Rightarrow>
               (Inr (metrics\<lparr>TransactionsPerSecond := rate p metrics\<rparr>),
                p\<lparr>PreviousLedgerCloseTime := ClosedAt metrics\<rparr>)))"

subsection \<open>Notions used to state the properties\<close>

text \<open>The transactions that the reader returned, in order.\<close>

fun decoded :: "ReadResult list \<Rightarrow> LedgerTransaction list" where
  "decoded [] = []"
| "decoded (ReadTx tx # rs) = tx # decoded rs"
| "decoded (ReadErr err # rs) = decoded rs"

text \<open>A read that failed with the "unknown tx hash" signature, and one that failed
  otherwise.\<close>

fun is_unknown :: "ReadResult \<Rightarrow> bool" where
  "is_unknown (ReadErr err) = Contains err ''unknown tx hash''"
| "is_unknown (ReadTx tx) = False"

fun is_fatal :: "ReadResult \<Rightarrow> bool" where
  "is_fatal (ReadErr err) = (\<not> Contains err ''unknown tx hash'')"
| "is_fatal (ReadTx tx) = False"

text \<open>What the loop body reads from one transaction.\<close>

definition operation_count :: "LedgerTransaction \<Rightarrow> int" where
  "operation_count tx = int (length (Operations (Envelope tx)))"

definition is_successful :: "LedgerTransaction \<Rightarrow> bool" where
  "is_successful tx = Successful (Result tx)"

definition fee_charged :: "LedgerTransaction \<Rightarrow> 64 word" where
  "fee_charged tx = FeeCharged (Result tx)"

text \<open>
  The resource-usage extractor in the words of the specification (section 4.2): on a plain
  envelope the extension of the transaction itself, on a fee-bump envelope the extension
  of the inner transaction, on any other envelope none.
\<close>

definition spec_resource_usage :: "LedgerTransaction \<Rightarrow> SorobanTransactionData option" where
  "spec_resource_usage tx =
     (case Envelope tx of
        EnvelopeTypeTx t \<Rightarrow> (case Ext t of ExtV1 d \<Rightarrow> Some d | ExtV0 \<Rightarrow> None)
      | EnvelopeTypeTxFeeBump fb \<Rightarrow>
          (case Ext (InnerTx fb) of ExtV1 d \<Rightarrow> Some d | ExtV0 \<Rightarrow> None)
      | EnvelopeTypeTxV0 t \<Rightarrow> None)"

text \<open>The fee of a transaction as the signed integer that the \<^verbatim>\<open>int64\<close> stands for.\<close>

definition signed_fee :: "LedgerTransaction \<Rightarrow> int" where
  "signed_fee tx = sint (fee_charged tx)"

text \<open>The seconds between the stored close time and the close time of the ledger, as
  \<^verbatim>\<open>ProcessLedger\<close> computes them, and the number by which its rate computation divides.\<close>

definition elapsed :: "Processor \<Rightarrow> LedgerCloseMeta \<Rightarrow> real" where
  "elapsed p ledger = Seconds (Sub (ledger_ClosedAt ledger) (PreviousLedgerCloseTime p))"

definition divisor :: "Processor \<Rightarrow> LedgerCloseMeta \<Rightarrow> real" where
  "divisor p ledger =
     (if IsZero (PreviousLedgerCloseTime p) then 5
      else if 0 < elapsed p ledger then elapsed p ledger
      else 5)"

subsection \<open>Example ledgers\<close>

text \<open>A plain transaction with \<open>n\<close> operations, an outcome and a fee, without Soroban
  data.\<close>

definition plain_tx :: "nat \<Rightarrow> bool \<Rightarrow> 64 word \<Rightarrow> LedgerTransaction" where
  "plain_tx n ok fee =
     \<lparr>Envelope = EnvelopeTypeTx \<lparr>Tx_Operations = replicate n (Operation 0), Ext = ExtV0\<rparr>,
      Result = \<lparr>FeeCharged = fee, Successful = ok\<rparr>\<rparr>"

definition soroban_data :: SorobanTransactionData where
  "soroban_data =
     \<lparr>Resources = \<lparr>Instructions = 5000, ReadBytes = 300, WriteBytes = 200\<rparr>,
      ResourceFee = 70\<rparr>"

text \<open>A fee-bump transaction whose inner transaction carries Soroban data.\<close>

definition fee_bump_soroban_tx :: LedgerTransaction where
  "fee_bump_soroban_tx =
     \<lparr>Envelope = EnvelopeTypeTxFeeBump
        \<lparr>InnerTx = \<lparr>Tx_Operations = [Operation 0], Ext = ExtV1 soroban_data\<rparr>\<rparr>,
      Result = \<lparr>FeeCharged = 200, Successful = True\<rparr>\<rparr>"

text \<open>A ledger whose reader opens and returns \<open>rs\<close>, closed at \<open>t\<close>.\<close>

definition ledger_of :: "ReadResult list \<Rightarrow> Time \<Rightarrow> LedgerCloseMeta" where
  "ledger_of rs t =
     \<lparr>NewLedgerTransactionReader = (\<lambda>passphrase. Inr rs),
      ledger_Sequence = 7,
      ledger_Hash = ''ab12'',
      ledger_BaseFee = 100,
      ledger_ClosedAt = t\<rparr>"

text \<open>A ledger for which no reader can be created.\<close>

definition broken_ledger :: LedgerCloseMeta where
  "broken_ledger =
     \<lparr>NewLedgerTransactionReader = (\<lambda>passphrase. Inl ''unsupported version''),
      ledger_Sequence = 7,
      ledger_Hash = ''ab12'',
      ledger_BaseFee = 100,
      ledger_ClosedAt = 1000000000\<rparr>"

definition test_config :: Config where
  "test_config = \<lparr>Config_NetworkPassphrase = ''Test SDF Network ; September 2015''\<rparr>"

text \<open>A reader that returns two successful transactions (50 operations together, one of
  them a fee-bump Soroban transaction), one failed transaction and one read that fails
  with the "unknown tx hash" message; and the metrics of such a ledger closed at \<open>t\<close>,
  with a given rate.\<close>

definition mixed_reads :: "ReadResult list" where
  "mixed_reads =
     [ReadTx (plain_tx 49 True 100),
      ReadErr ''unknown tx hash in LedgerCloseMeta: 00'',
      ReadTx fee_bump_soroban_tx,
      ReadTx (plain_tx 3 False 100)]"

definition mixed_metrics :: "Time \<Rightarrow> real \<Rightarrow> LatestLedger" where
  "mixed_metrics t tps =
     \<lparr>Sequence = 7, Hash = ''ab12'', TransactionCount = 4, TxSetOperationCount = 53,
      SuccessfulOperationCount = 50, SuccessfulTxCount = 2, FailedTxCount = 2,
      TotalFeeCharged = 400, ClosedAt = t, BaseFee = 100, TransactionsPerSecond = tps,
      SorobanTxCount = 1, TotalSorobanFees = 70, TotalResourceInstructions = 5000,
      SkippedTxCount = 0, UnknownTxCount = 1\<rparr>"



text \<open>A reader whose third read fails with another error, and a ledger with it.\<close>

definition fatal_reads :: "ReadResult list" where
  "fatal_reads =
     [ReadTx (plain_tx 49 True 100),
      ReadErr ''unknown tx hash in LedgerCloseMeta: 00'',
      ReadErr ''unexpected EOF'']"

definition fatal_ledger :: LedgerCloseMeta where
  "fatal_ledger = ledger_of fatal_reads 2000000000"

text \<open>A plain transaction that carries Soroban data.\<close>

definition plain_soroban_tx :: LedgerTransaction where
  "plain_soroban_tx =
     \<lparr>Envelope = EnvelopeTypeTx \<lparr>Tx_Operations = [Operation 0], Ext = ExtV1 soroban_data\<rparr>,
      Result = \<lparr>FeeCharged = 200, Successful = True\<rparr>\<rparr>"

text \<open>Two successful transactions whose fees are \<open>2^62 = 4611686018427387904\<close> each,
  and the metrics of the ledger with them, closed at \<open>1000000000\<close> and processed first.\<close>

definition overflow_reads :: "ReadResult list" where
  "overflow_reads =
     [ReadTx (plain_tx 1 True 4611686018427387904),
      ReadTx (plain_tx 1 True 4611686018427387904)]"

definition overflow_metrics :: LatestLedger where
  "overflow_metrics =
     \<lparr>Sequence = 7, Hash = ''ab12'', TransactionCount = 2, TxSetOperationCount = 2,
      SuccessfulOperationCount = 2, SuccessfulTxCount = 2, FailedTxCount = 0,
      TotalFeeCharged = - 9223372036854775808, ClosedAt = 1000000000, BaseFee = 100,
      TransactionsPerSecond = 2 / 5,
      SorobanTxCount = 0, TotalSorobanFees = 0, TotalResourceInstructions = 0,
      SkippedTxCount = 0, UnknownTxCount = 0\<rparr>"

text \<open>A processor that has stored the close time \<open>t\<close>.\<close>

definition later_processor :: "Time \<Rightarrow> Processor" where
  "later_processor t = (NewProcessor test_config)\<lparr>PreviousLedgerCloseTime := t\<rparr>"

text \<open>The processor after a first ledger that closed at the zero instant.\<close>

definition after_zero_block :: Processor where
  "after_zero_block = snd (ProcessLedger (NewProcessor test_config) (ledger_of mixed_reads 0))"

section \<open>The loop, field by field\<close>

lemma count_unknown_fields:
  "TransactionCount (count_unknown m) = TransactionCount m + 1"
  "FailedTxCount (count_unknown m) = FailedTxCount m + 1"
  "UnknownTxCount (count_unknown m) = UnknownTxCount m + 1"
  "SuccessfulTxCount (count_unknown m) = SuccessfulTxCount m"
  "TxSetOperationCount (count_unknown m) = TxSetOperationCount m"
  "SuccessfulOperationCount (count_unknown m) = SuccessfulOperationCount m"
  "TotalFeeCharged (count_unknown m) = TotalFeeCharged m"
  "SorobanTxCount (count_unknown m) = SorobanTxCount m"
  "TotalSorobanFees (count_unknown m) = TotalSorobanFees m"
  "TotalResourceInstructions (count_unknown m) = TotalResourceInstructions m"
  "SkippedTxCount (count_unknown m) = SkippedTxCount m"
  "ClosedAt (count_unknown m) = ClosedAt m"
  "Sequence (count_unknown m) = Sequence m"
  "Hash (count_unknown m) = Hash m"
  "BaseFee (count_unknown m) = BaseFee m"
  "TransactionsPerSecond (count_unknown m) = TransactionsPerSecond m"
  by (simp_all add: count_unknown_def)

lemma count_tx_fields:
  "TransactionCount (count_tx m tx) = TransactionCount m + 1"
  "FailedTxCount (count_tx m tx) = FailedTxCount m + (if is_successful tx then 0 else 1)"
  "UnknownTxCount (count_tx m tx) = UnknownTxCount m"
  "SuccessfulTxCount (count_tx m tx) = SuccessfulTxCount m + (if is_successful tx then 1 else 0)"
  "TxSetOperationCount (count_tx m tx) = TxSetOperationCount m + operation_count tx"
  "SuccessfulOperationCount (count_tx m tx) =
     SuccessfulOperationCount m + (if is_successful tx then operation_count tx else 0)"
  "TotalFeeCharged (count_tx m tx) = TotalFeeCharged m + fee_charged tx"
  "SorobanTxCount (count_tx m tx) = SorobanTxCount m + (if hasSorobanTransaction tx then 1 else 0)"
  "TotalSorobanFees (count_tx m tx) =
     TotalSorobanFees m + (if hasSorobanTransaction tx then resourceFee (getSorobanMetrics tx) else 0)"
  "TotalResourceInstructions (count_tx m tx) =
     TotalResourceInstructions m +
       (if hasSorobanTransaction tx then ucast (instructions (getSorobanMetrics tx)) else 0)"
  "SkippedTxCount (count_tx m tx) = SkippedTxCount m"
  "ClosedAt (count_tx m tx) = ClosedAt m"
  "Sequence (count_tx m tx) = Sequence m"
  "Hash (count_tx m tx) = Hash m"
  "BaseFee (count_tx m tx) = BaseFee m"
  "TransactionsPerSecond (count_tx m tx) = TransactionsPerSecond m"
  by (simp_all add: count_tx_def count_soroban_def Let_def is_successful_def
      operation_count_def fee_charged_def del: hasSorobanTransaction.simps)

text \<open>The loop ends with an error exactly when some read fails otherwise than with an
  unknown hash.\<close>

lemma read_loop_isl: "isl (read_loop m rs) \<longleftrightarrow> list_ex is_fatal rs"
  by (induction m rs rule: read_loop.induct) simp_all

lemma reads_split:
  "\<not> list_ex is_fatal rs \<Longrightarrow> length rs = length (decoded rs) + length (filter is_unknown rs)"
proof (induction rs)
  case Nil
  then show ?case by simp
next
  case (Cons r rs)
  then show ?case by (cases r) simp_all
qed

lemma read_loop_TransactionCount:
  "read_loop m rs = Inr m' \<Longrightarrow> TransactionCount m' = TransactionCount m + int (length rs)"
  by (induction m rs rule: read_loop.induct)
     (simp_all add: count_unknown_fields count_tx_fields split: if_splits)

lemma read_loop_SuccessfulTxCount:
  "read_loop m rs = Inr m' \<Longrightarrow>
   SuccessfulTxCount m' = SuccessfulTxCount m + int (length (filter is_successful (decoded rs)))"
  by (induction m rs rule: read_loop.induct)
     (simp_all add: count_unknown_fields count_tx_fields split: if_splits)

lemma read_loop_UnknownTxCount:
  "read_loop m rs = Inr m' \<Longrightarrow>
   UnknownTxCount m' = UnknownTxCount m + int (length (filter is_unknown rs))"
  by (induction m rs rule: read_loop.induct)
     (simp_all add: count_unknown_fields count_tx_fields split: if_splits)

lemma read_loop_FailedTxCount:
  "read_loop m rs = Inr m' \<Longrightarrow>
   FailedTxCount m' = FailedTxCount m
     + int (length (filter (\<lambda>tx. \<not> is_successful tx) (decoded rs)))
     + int (length (filter is_unknown rs))"
  by (induction m rs rule: read_loop.induct)
     (simp_all add: count_unknown_fields count_tx_fields split: if_splits)

lemma read_loop_TotalFeeCharged:
  "read_loop m rs = Inr m' \<Longrightarrow>
   TotalFeeCharged m' = TotalFeeCharged m + sum_list (map fee_charged (decoded rs))"
  by (induction m rs rule: read_loop.induct)
     (simp_all add: count_unknown_fields count_tx_fields split: if_splits)

lemma read_loop_TxSetOperationCount:
  "read_loop m rs = Inr m' \<Longrightarrow>
   TxSetOperationCount m' = TxSetOperationCount m + sum_list (map operation_count (decoded rs))"
  by (induction m rs rule: read_loop.induct)
     (simp_all add: count_unknown_fields count_tx_fields split: if_splits)

lemma read_loop_SuccessfulOperationCount:
  "read_loop m rs = Inr m' \<Longrightarrow>
   SuccessfulOperationCount m' =
     SuccessfulOperationCount m + sum_list (map operation_count (filter is_successful (decoded rs)))"
  by (induction m rs rule: read_loop.induct)
     (simp_all add: count_unknown_fields count_tx_fields split: if_splits)

lemma read_loop_SorobanTxCount:
  "read_loop m rs = Inr m' \<Longrightarrow>
   SorobanTxCount m' = SorobanTxCount m + int (length (filter hasSorobanTransaction (decoded rs)))"
  by (induction m rs rule: read_loop.induct)
     (simp_all add: count_unknown_fields count_tx_fields split: if_splits
       del: hasSorobanTransaction.simps)

lemma read_loop_SkippedTxCount:
  "read_loop m rs = Inr m' \<Longrightarrow> SkippedTxCount m' = SkippedTxCount m"
  by (induction m rs rule: read_loop.induct)
     (simp_all add: count_unknown_fields count_tx_fields split: if_splits)

lemma read_loop_ClosedAt:
  "read_loop m rs = Inr m' \<Longrightarrow> ClosedAt m' = ClosedAt m"
  by (induction m rs rule: read_loop.induct)
     (simp_all add: count_unknown_fields count_tx_fields split: if_splits)

text \<open>What a call that returns metrics has done.\<close>

lemma ProcessLedger_Inr:
  assumes "fst (ProcessLedger p ledger) = Inr m"
  shows "\<exists>rs metrics.
    NewLedgerTransactionReader ledger (NetworkPassphrase p) = Inr rs
    \<and> read_loop (initial_metrics ledger) rs = Inr metrics
    \<and> m = metrics\<lparr>TransactionsPerSecond := rate p metrics\<rparr>
    \<and> snd (ProcessLedger p ledger) = p\<lparr>PreviousLedgerCloseTime := ClosedAt metrics\<rparr>"
  using assms by (auto simp: ProcessLedger_def split: sum.splits)

lemma ProcessLedger_reader:
  assumes "NewLedgerTransactionReader ledger (NetworkPassphrase p) = Inr rs"
    and "fst (ProcessLedger p ledger) = Inr m"
  shows "\<exists>metrics.
    read_loop (initial_metrics ledger) rs = Inr metrics
    \<and> m = metrics\<lparr>TransactionsPerSecond := rate p metrics\<rparr>"
  using assms by (auto simp: ProcessLedger_def split: sum.splits)

subsection \<open>Fees as signed integers\<close>

lemma word_of_int_sum_sint:
  "word_of_int (sum_list (map signed_fee txs)) = sum_list (map fee_charged txs)"
  by (induction txs) (simp_all add: signed_fee_def)

lemma sint_sum_fees:
  "sint (sum_list (map fee_charged txs)) = signed_take_bit 63 (sum_list (map signed_fee txs))"
proof -
  have "sint (sum_list (map fee_charged txs))
      = sint (word_of_int (sum_list (map signed_fee txs)) :: 64 word)"
    by (simp only: word_of_int_sum_sint)
  also have "\<dots> = signed_take_bit 63 (sum_list (map signed_fee txs))"
    by (simp add: sint_sbintrunc')
  finally show ?thesis .
qed

subsection \<open>The rate\<close>

lemma initial_ClosedAt: "ClosedAt (initial_metrics ledger) = ledger_ClosedAt ledger"
  by (simp add: initial_metrics_def)

lemma Sub_positive: "0 < Sub t u \<longleftrightarrow> u < t"
  by (auto simp: Sub_def minDuration_def maxDuration_def)

lemma Seconds_positive: "0 < Seconds d \<longleftrightarrow> 0 < d"
  by (simp add: Seconds_def)

lemma Sub_in_range:
  "minDuration \<le> t - u \<Longrightarrow> t - u \<le> maxDuration \<Longrightarrow> Sub t u = t - u"
  by (simp add: Sub_def)

lemma elapsed_exact:
  assumes "minDuration \<le> ledger_ClosedAt ledger - PreviousLedgerCloseTime p"
    and "ledger_ClosedAt ledger - PreviousLedgerCloseTime p \<le> maxDuration"
  shows "elapsed p ledger
    = real_of_int (ledger_ClosedAt ledger - PreviousLedgerCloseTime p) / 1000000000"
  using assms by (simp add: elapsed_def Sub_in_range Seconds_def)

lemma elapsed_clamped:
  "elapsed p ledger =
     real_of_int (max minDuration (min maxDuration
       (ledger_ClosedAt ledger - PreviousLedgerCloseTime p))) / 1000000000"
  by (auto simp: elapsed_def Sub_def Seconds_def minDuration_def maxDuration_def max_def min_def)

subsection \<open>A read that fails with an unknown hash\<close>





lemma ProcessLedger_isl:
  "isl (fst (ProcessLedger p ledger)) \<longleftrightarrow>
     (case NewLedgerTransactionReader ledger (NetworkPassphrase p) of
        Inl err \<Rightarrow> True
      | Inr rs \<Rightarrow> list_ex is_fatal rs)"
proof (cases "NewLedgerTransactionReader ledger (NetworkPassphrase p)")
  case (Inl err)
  then show ?thesis by (simp add: ProcessLedger_def)
next
  case (Inr rs)
  then show ?thesis
    using read_loop_isl [of "initial_metrics ledger" rs]
    by (cases "read_loop (initial_metrics ledger) rs") (simp_all add: ProcessLedger_def)
qed

subsection \<open>The resource-usage extractor\<close>

lemma hasSoroban_spec: "hasSorobanTransaction tx = (spec_resource_usage tx \<noteq> None)"
  by (simp add: spec_resource_usage_def split: TransactionEnvelope.splits TransactionExt.splits)

lemma getSorobanMetrics_spec:
  "spec_resource_usage tx = Some d \<Longrightarrow>
   getSorobanMetrics tx =
     \<lparr>resourceFee = ResourceFee d,
      instructions = Instructions (Resources d),
      readBytes = ReadBytes (Resources d),
      writeBytes = WriteBytes (Resources d)\<rparr>"
  by (auto simp: spec_resource_usage_def getSorobanMetrics_def
      split: TransactionEnvelope.splits TransactionExt.splits)

subsection \<open>The example ledger, evaluated\<close>


lemma read_loop_mixed:
  "read_loop (initial_metrics (ledger_of mixed_reads t)) mixed_reads = Inr (mixed_metrics t 0)"
  by (simp add: mixed_reads_def mixed_metrics_def initial_metrics_def ledger_of_def
      count_tx_def count_soroban_def count_unknown_def plain_tx_def fee_bump_soroban_tx_def
      getSorobanMetrics_def soroban_data_def Let_def)

lemma reader_mixed:
  "NewLedgerTransactionReader (ledger_of mixed_reads t) (NetworkPassphrase p) = Inr mixed_reads"
  by (simp add: ledger_of_def)

lemma ProcessLedger_mixed:
  "ProcessLedger p (ledger_of mixed_reads t) =
     (Inr (mixed_metrics t (rate p (mixed_metrics t 0))), p\<lparr>PreviousLedgerCloseTime := t\<rparr>)"
  by (simp add: ProcessLedger_def read_loop_mixed reader_mixed) (simp add: mixed_metrics_def)

lemma rate_fresh: "rate (NewProcessor c) (mixed_metrics t 0) = 10"
  by (simp add: rate_def NewProcessor_def zeroTime_def IsZero_def mixed_metrics_def)


lemma ProcessLedger_overflow:
  "fst (ProcessLedger (NewProcessor test_config) (ledger_of overflow_reads 1000000000))
     = Inr overflow_metrics"
  by (simp add: ProcessLedger_def ledger_of_def overflow_reads_def overflow_metrics_def
      initial_metrics_def count_tx_def count_soroban_def plain_tx_def Let_def
      rate_def NewProcessor_def zeroTime_def IsZero_def)

lemma rate_later:
  "rate (later_processor 1000000000) (mixed_metrics 11000000000 0) = 5"
  "rate (later_processor 1000000000) (mixed_metrics 1000000000 0) = 10"
  "rate (later_processor 1000000000) (mixed_metrics 500000000 0) = 10"
  by (simp_all add: rate_def later_processor_def IsZero_def mixed_metrics_def
      Sub_def Seconds_def minDuration_def maxDuration_def)

lemma after_zero_block_eq: "after_zero_block = NewProcessor test_config"
  by (simp add: after_zero_block_def ProcessLedger_mixed NewProcessor_def zeroTime_def)

lemma rate_after_zero: "rate after_zero_block (mixed_metrics 10000000000 0) = 10"
  by (simp add: after_zero_block_eq rate_fresh)

lemma rate_saturated:
  "rate (later_processor 1000000000) (mixed_metrics 10000000001000000000 0)
     = 50000000000 / 9223372036854775807"
  by (simp add: rate_def later_processor_def IsZero_def mixed_metrics_def
      Sub_def Seconds_def minDuration_def maxDuration_def)

section \<open>Properties of ProcessLedger\<close>

text \<open>
  C1. Whenever \<^verbatim>\<open>ProcessLedger\<close> returns metrics, the transaction count is the sum of the
  successful and the failed count. Every read is counted once in the transaction count; a
  read that failed with "unknown tx hash" is counted among the failed ones (and in the
  unknown count), a transaction that was read among the successful or the failed ones by
  its outcome.
\<close>

theorem transaction_count_split:
  assumes "NewLedgerTransactionReader ledger (NetworkPassphrase p) = Inr rs"
    and "fst (ProcessLedger p ledger) = Inr m"
  shows "TransactionCount m = SuccessfulTxCount m + FailedTxCount m
    \<and> TransactionCount m = int (length rs)
    \<and> SuccessfulTxCount m = int (length (filter is_successful (decoded rs)))
    \<and> FailedTxCount m =
        int (length (filter (\<lambda>tx. \<not> is_successful tx) (decoded rs)))
        + int (length (filter is_unknown rs))
    \<and> UnknownTxCount m = int (length (filter is_unknown rs))"
proof -
  from assms obtain metrics where
    loop: "read_loop (initial_metrics ledger) rs = Inr metrics" and
    m: "m = metrics\<lparr>TransactionsPerSecond := rate p metrics\<rparr>"
    using ProcessLedger_reader by blast
  have no_fatal: "\<not> list_ex is_fatal rs"
    using read_loop_isl [of "initial_metrics ledger" rs] loop by simp
  have parts: "length (decoded rs) =
      length (filter is_successful (decoded rs))
      + length (filter (\<lambda>tx. \<not> is_successful tx) (decoded rs))"
    by (rule sum_length_filter_compl [symmetric])
  have total: "TransactionCount m = int (length rs)"
    using read_loop_TransactionCount [OF loop] by (simp add: m initial_metrics_def)
  have succ: "SuccessfulTxCount m = int (length (filter is_successful (decoded rs)))"
    using read_loop_SuccessfulTxCount [OF loop] by (simp add: m initial_metrics_def)
  have failed: "FailedTxCount m =
      int (length (filter (\<lambda>tx. \<not> is_successful tx) (decoded rs)))
      + int (length (filter is_unknown rs))"
    using read_loop_FailedTxCount [OF loop] by (simp add: m initial_metrics_def)
  have unknown: "UnknownTxCount m = int (length (filter is_unknown rs))"
    using read_loop_UnknownTxCount [OF loop] by (simp add: m initial_metrics_def)
  have "TransactionCount m = SuccessfulTxCount m + FailedTxCount m"
    using total succ failed reads_split [OF no_fatal] parts by linarith
  with total succ failed unknown show ?thesis by simp
qed

theorem transaction_count_split_witness:
  "NewLedgerTransactionReader (ledger_of mixed_reads 1000000000)
     (NetworkPassphrase (NewProcessor test_config)) = Inr mixed_reads
   \<and> fst (ProcessLedger (NewProcessor test_config) (ledger_of mixed_reads 1000000000))
       = Inr (mixed_metrics 1000000000 10)
   \<and> TransactionCount (mixed_metrics 1000000000 10)
       = SuccessfulTxCount (mixed_metrics 1000000000 10)
         + FailedTxCount (mixed_metrics 1000000000 10)
   \<and> TransactionCount (mixed_metrics 1000000000 10) = 4
   \<and> FailedTxCount (mixed_metrics 1000000000 10) = 2
   \<and> UnknownTxCount (mixed_metrics 1000000000 10) = 1"
proof -
  have reader: "NewLedgerTransactionReader (ledger_of mixed_reads 1000000000)
      (NetworkPassphrase (NewProcessor test_config)) = Inr mixed_reads"
    by (rule reader_mixed)
  have result: "fst (ProcessLedger (NewProcessor test_config) (ledger_of mixed_reads 1000000000))
      = Inr (mixed_metrics 1000000000 10)"
    by (simp add: ProcessLedger_mixed rate_fresh)
  from transaction_count_split [OF reader result] reader result show ?thesis
    by (simp add: mixed_metrics_def)
qed

text \<open>
  C2. Whenever \<^verbatim>\<open>ProcessLedger\<close> returns metrics, the total fee charged is the sum of
  the fees of the transactions that were read, successful or failed, added as
  \<^verbatim>\<open>int64\<close> values: as a signed integer it is the exact sum reduced to the 64-bit
  two's-complement range, and it is the exact sum whenever that sum lies in the range. A
  read that fails with "unknown tx hash" returns no transaction and adds no fee.
\<close>

theorem total_fee_charged_sum:
  assumes "NewLedgerTransactionReader ledger (NetworkPassphrase p) = Inr rs"
    and "fst (ProcessLedger p ledger) = Inr m"
  shows "TotalFeeCharged m = sum_list (map fee_charged (decoded rs))
    \<and> sint (TotalFeeCharged m) = signed_take_bit 63 (sum_list (map signed_fee (decoded rs)))
    \<and> (- (2 ^ 63) \<le> sum_list (map signed_fee (decoded rs))
         \<and> sum_list (map signed_fee (decoded rs)) < 2 ^ 63
       \<longrightarrow> sint (TotalFeeCharged m) = sum_list (map signed_fee (decoded rs)))"
proof -
  from assms obtain metrics where
    loop: "read_loop (initial_metrics ledger) rs = Inr metrics" and
    m: "m = metrics\<lparr>TransactionsPerSecond := rate p metrics\<rparr>"
    using ProcessLedger_reader by blast
  have total: "TotalFeeCharged m = sum_list (map fee_charged (decoded rs))"
    using read_loop_TotalFeeCharged [OF loop] by (simp add: m initial_metrics_def)
  have wrapped: "sint (TotalFeeCharged m)
      = signed_take_bit 63 (sum_list (map signed_fee (decoded rs)))"
    by (simp only: total sint_sum_fees)
  have exact: "sint (TotalFeeCharged m) = sum_list (map signed_fee (decoded rs))"
    if "- (2 ^ 63) \<le> sum_list (map signed_fee (decoded rs))"
      and "sum_list (map signed_fee (decoded rs)) < 2 ^ 63"
    using that wrapped by (simp add: signed_take_bit_int_eq_self)
  from total wrapped exact show ?thesis by blast
qed

theorem total_fee_charged_sum_witness:
  "NewLedgerTransactionReader (ledger_of mixed_reads 1000000000)
     (NetworkPassphrase (NewProcessor test_config)) = Inr mixed_reads
   \<and> fst (ProcessLedger (NewProcessor test_config) (ledger_of mixed_reads 1000000000))
       = Inr (mixed_metrics 1000000000 10)
   \<and> - (2 ^ 63) \<le> sum_list (map signed_fee (decoded mixed_reads))
   \<and> sum_list (map signed_fee (decoded mixed_reads)) < 2 ^ 63
   \<and> sum_list (map signed_fee (decoded mixed_reads)) = 400
   \<and> sint (TotalFeeCharged (mixed_metrics 1000000000 10)) = 400"
proof -
  have reader: "NewLedgerTransactionReader (ledger_of mixed_reads 1000000000)
      (NetworkPassphrase (NewProcessor test_config)) = Inr mixed_reads"
    by (rule reader_mixed)
  have result: "fst (ProcessLedger (NewProcessor test_config) (ledger_of mixed_reads 1000000000))
      = Inr (mixed_metrics 1000000000 10)"
    by (simp add: ProcessLedger_mixed rate_fresh)
  have fees: "sum_list (map signed_fee (decoded mixed_reads)) = 400"
    by (simp add: mixed_reads_def signed_fee_def fee_charged_def plain_tx_def
        fee_bump_soroban_tx_def)
  have range: "- (2 ^ 63) \<le> sum_list (map signed_fee (decoded mixed_reads))
      \<and> sum_list (map signed_fee (decoded mixed_reads)) < 2 ^ 63"
    by (simp add: fees)
  have "sint (TotalFeeCharged (mixed_metrics 1000000000 10))
      = sum_list (map signed_fee (decoded mixed_reads))"
    by (rule mp [OF total_fee_charged_sum [OF reader result, THEN conjunct2, THEN conjunct2] range])
  with reader result fees show ?thesis
    by simp
qed

text \<open>
  C2, as stated without the reduction, fails: for two successful transactions with a fee
  of \<open>2^62\<close> each the exact sum is \<open>2^63\<close>, the total fee charged is \<open>- 2^63\<close>.
\<close>

theorem total_fee_charged_counterexample:
  "fst (ProcessLedger (NewProcessor test_config) (ledger_of overflow_reads 1000000000))
     = Inr overflow_metrics
   \<and> sint (TotalFeeCharged overflow_metrics) = - 9223372036854775808
   \<and> sum_list (map signed_fee (decoded overflow_reads)) = 9223372036854775808
   \<and> sint (TotalFeeCharged overflow_metrics) \<noteq> sum_list (map signed_fee (decoded overflow_reads))"
  by (simp add: ProcessLedger_overflow)
     (simp add: overflow_metrics_def overflow_reads_def signed_fee_def fee_charged_def plain_tx_def)

text \<open>
  C3. Whenever \<^verbatim>\<open>ProcessLedger\<close> returns metrics: if the stored close time is the zero
  time the rate is the successful operation count divided by 5. The stored time is the
  zero time in a new processor, and after a call that returned metrics exactly when that
  ledger closed at the zero instant. Otherwise the elapsed seconds are the close time of
  the ledger minus the stored close time, limited to the range of a Duration
  (\<open>- 2^63\<close> to \<open>2^63 - 1\<close> nanoseconds; inside the range they are the exact
  difference), and the rate is the count divided by the elapsed seconds when they are
  positive, and divided by 5 when they are not. The elapsed seconds are positive exactly
  when the ledger closed after the stored time. The number by which the count is divided
  is positive in every case.
\<close>

theorem rate_branches:
  assumes "fst (ProcessLedger p ledger) = Inr m"
  shows "TransactionsPerSecond m =
      (if IsZero (PreviousLedgerCloseTime p)
       then real_of_int (SuccessfulOperationCount m) / 5
       else if 0 < elapsed p ledger
       then real_of_int (SuccessfulOperationCount m) / elapsed p ledger
       else real_of_int (SuccessfulOperationCount m) / 5)
    \<and> TransactionsPerSecond m = real_of_int (SuccessfulOperationCount m) / divisor p ledger
    \<and> 0 < divisor p ledger
    \<and> elapsed p ledger =
        real_of_int (max minDuration (min maxDuration
          (ledger_ClosedAt ledger - PreviousLedgerCloseTime p))) / 1000000000
    \<and> (minDuration \<le> ledger_ClosedAt ledger - PreviousLedgerCloseTime p
         \<and> ledger_ClosedAt ledger - PreviousLedgerCloseTime p \<le> maxDuration
       \<longrightarrow> elapsed p ledger
           = real_of_int (ledger_ClosedAt ledger - PreviousLedgerCloseTime p) / 1000000000)
    \<and> (0 < elapsed p ledger) = (PreviousLedgerCloseTime p < ledger_ClosedAt ledger)
    \<and> IsZero (PreviousLedgerCloseTime p) = (PreviousLedgerCloseTime p = zeroTime)
    \<and> IsZero (PreviousLedgerCloseTime (NewProcessor config))
    \<and> IsZero (PreviousLedgerCloseTime (snd (ProcessLedger p ledger)))
        = (ledger_ClosedAt ledger = zeroTime)"
proof -
  from assms obtain rs metrics where
    loop: "read_loop (initial_metrics ledger) rs = Inr metrics" and
    m: "m = metrics\<lparr>TransactionsPerSecond := rate p metrics\<rparr>" and
    p': "snd (ProcessLedger p ledger) = p\<lparr>PreviousLedgerCloseTime := ClosedAt metrics\<rparr>"
    using ProcessLedger_Inr by blast
  have closed: "ClosedAt metrics = ledger_ClosedAt ledger"
    using read_loop_ClosedAt [OF loop] by (simp add: initial_ClosedAt)
  have tps: "TransactionsPerSecond m = rate p metrics"
    and soc: "SuccessfulOperationCount m = SuccessfulOperationCount metrics"
    by (simp_all add: m)
  have branches: "TransactionsPerSecond m =
      (if IsZero (PreviousLedgerCloseTime p)
       then real_of_int (SuccessfulOperationCount m) / 5
       else if 0 < elapsed p ledger
       then real_of_int (SuccessfulOperationCount m) / elapsed p ledger
       else real_of_int (SuccessfulOperationCount m) / 5)"
    by (simp add: tps soc rate_def elapsed_def closed Let_def)
  have quotient: "TransactionsPerSecond m
      = real_of_int (SuccessfulOperationCount m) / divisor p ledger"
    by (simp add: branches divisor_def)
  have positive: "0 < divisor p ledger"
    by (simp add: divisor_def)
  have exact: "elapsed p ledger
      = real_of_int (ledger_ClosedAt ledger - PreviousLedgerCloseTime p) / 1000000000"
    if "minDuration \<le> ledger_ClosedAt ledger - PreviousLedgerCloseTime p
      \<and> ledger_ClosedAt ledger - PreviousLedgerCloseTime p \<le> maxDuration"
    using that by (simp add: elapsed_exact)
  have sign: "(0 < elapsed p ledger) = (PreviousLedgerCloseTime p < ledger_ClosedAt ledger)"
    by (simp add: elapsed_def Seconds_positive Sub_positive)
  have zero: "IsZero (PreviousLedgerCloseTime p) = (PreviousLedgerCloseTime p = zeroTime)"
    by (simp add: IsZero_def zeroTime_def)
  have fresh: "IsZero (PreviousLedgerCloseTime (NewProcessor config))"
    by (simp add: NewProcessor_def zeroTime_def IsZero_def)
  have stored: "IsZero (PreviousLedgerCloseTime (snd (ProcessLedger p ledger)))
      = (ledger_ClosedAt ledger = zeroTime)"
    by (simp add: p' closed IsZero_def zeroTime_def)
  from branches quotient positive elapsed_clamped [of p ledger] exact sign zero fresh stored
  show ?thesis by blast
qed

theorem rate_branches_witness:
  "fst (ProcessLedger (NewProcessor test_config) (ledger_of mixed_reads 1000000000))
     = Inr (mixed_metrics 1000000000 10)
   \<and> divisor (NewProcessor test_config) (ledger_of mixed_reads 1000000000) = 5
   \<and> fst (ProcessLedger (later_processor 1000000000) (ledger_of mixed_reads 11000000000))
     = Inr (mixed_metrics 11000000000 5)
   \<and> minDuration \<le> ledger_ClosedAt (ledger_of mixed_reads 11000000000)
        - PreviousLedgerCloseTime (later_processor 1000000000)
   \<and> ledger_ClosedAt (ledger_of mixed_reads 11000000000)
        - PreviousLedgerCloseTime (later_processor 1000000000) \<le> maxDuration
   \<and> elapsed (later_processor 1000000000) (ledger_of mixed_reads 11000000000) = 10
   \<and> divisor (later_processor 1000000000) (ledger_of mixed_reads 11000000000) = 10
   \<and> fst (ProcessLedger (later_processor 1000000000) (ledger_of mixed_reads 1000000000))
     = Inr (mixed_metrics 1000000000 10)
   \<and> divisor (later_processor 1000000000) (ledger_of mixed_reads 1000000000) = 5
   \<and> fst (ProcessLedger (later_processor 1000000000) (ledger_of mixed_reads 500000000))
     = Inr (mixed_metrics 500000000 10)
   \<and> divisor (later_processor 1000000000) (ledger_of mixed_reads 500000000) = 5"
proof -
  have first: "fst (ProcessLedger (NewProcessor test_config) (ledger_of mixed_reads 1000000000))
      = Inr (mixed_metrics 1000000000 10)"
    by (simp add: ProcessLedger_mixed rate_fresh)
  have later: "fst (ProcessLedger (later_processor 1000000000) (ledger_of mixed_reads 11000000000))
      = Inr (mixed_metrics 11000000000 5)"
    by (simp add: ProcessLedger_mixed rate_later)
  have same: "fst (ProcessLedger (later_processor 1000000000) (ledger_of mixed_reads 1000000000))
      = Inr (mixed_metrics 1000000000 10)"
    by (simp add: ProcessLedger_mixed rate_later)
  have earlier: "fst (ProcessLedger (later_processor 1000000000) (ledger_of mixed_reads 500000000))
      = Inr (mixed_metrics 500000000 10)"
    by (simp add: ProcessLedger_mixed rate_later)
  have range: "minDuration \<le> ledger_ClosedAt (ledger_of mixed_reads 11000000000)
        - PreviousLedgerCloseTime (later_processor 1000000000)
      \<and> ledger_ClosedAt (ledger_of mixed_reads 11000000000)
        - PreviousLedgerCloseTime (later_processor 1000000000) \<le> maxDuration"
    by (simp add: ledger_of_def later_processor_def minDuration_def maxDuration_def)
  have "elapsed (later_processor 1000000000) (ledger_of mixed_reads 11000000000)
      = real_of_int (ledger_ClosedAt (ledger_of mixed_reads 11000000000)
          - PreviousLedgerCloseTime (later_processor 1000000000)) / 1000000000"
    by (rule mp [OF rate_branches [OF later, THEN conjunct2, THEN conjunct2, THEN conjunct2,
        THEN conjunct2, THEN conjunct1] range])
  then have e2: "elapsed (later_processor 1000000000) (ledger_of mixed_reads 11000000000) = 10"
    by (simp add: ledger_of_def later_processor_def)
  have d1: "divisor (NewProcessor test_config) (ledger_of mixed_reads 1000000000) = 5"
    by (simp add: divisor_def NewProcessor_def zeroTime_def IsZero_def)
  have stored: "\<not> IsZero (PreviousLedgerCloseTime (later_processor 1000000000))"
    by (simp add: later_processor_def IsZero_def)
  have d2: "divisor (later_processor 1000000000) (ledger_of mixed_reads 11000000000) = 10"
    by (simp add: divisor_def e2 stored)
  have d3: "divisor (later_processor 1000000000) (ledger_of mixed_reads 1000000000) = 5"
    by (simp add: divisor_def elapsed_def later_processor_def IsZero_def ledger_of_def
        Sub_def Seconds_def minDuration_def maxDuration_def)
  have d4: "divisor (later_processor 1000000000) (ledger_of mixed_reads 500000000) = 5"
    by (simp add: divisor_def elapsed_def later_processor_def IsZero_def ledger_of_def
        Sub_def Seconds_def minDuration_def maxDuration_def)
  from rate_branches [OF first] rate_branches [OF same] rate_branches [OF earlier]
    first later same earlier range e2 d1 d2 d3 d4
  show ?thesis by simp
qed

text \<open>
  C3, as stated for a processor that has processed a block before and with the elapsed
  seconds as the plain difference of the close times, fails twice. A second ledger that
  closes 10 seconds after a first ledger that closed at the zero instant has 50 successful
  operations and the rate 10, not 50 / 10. A ledger that closes \<open>10^10\<close> seconds after
  the stored close time has the rate \<open>50 / 9223372036.854775807\<close>, not
  \<open>50 / 10^10\<close>.
\<close>

theorem rate_branches_counterexample:
  "fst (ProcessLedger (NewProcessor test_config) (ledger_of mixed_reads 0))
     = Inr (mixed_metrics 0 10)
   \<and> after_zero_block = snd (ProcessLedger (NewProcessor test_config) (ledger_of mixed_reads 0))
   \<and> fst (ProcessLedger after_zero_block (ledger_of mixed_reads 10000000000))
     = Inr (mixed_metrics 10000000000 10)
   \<and> real_of_int (ledger_ClosedAt (ledger_of mixed_reads 10000000000)
         - ledger_ClosedAt (ledger_of mixed_reads 0)) / 1000000000 = 10
   \<and> TransactionsPerSecond (mixed_metrics 10000000000 10)
       \<noteq> real_of_int (SuccessfulOperationCount (mixed_metrics 10000000000 10)) / 10
   \<and> fst (ProcessLedger (later_processor 1000000000) (ledger_of mixed_reads 10000000001000000000))
     = Inr (mixed_metrics 10000000001000000000 (50000000000 / 9223372036854775807))
   \<and> real_of_int (ledger_ClosedAt (ledger_of mixed_reads 10000000001000000000)
         - PreviousLedgerCloseTime (later_processor 1000000000)) / 1000000000 = 10000000000
   \<and> TransactionsPerSecond
         (mixed_metrics 10000000001000000000 (50000000000 / 9223372036854775807))
       \<noteq> real_of_int (SuccessfulOperationCount
             (mixed_metrics 10000000001000000000 (50000000000 / 9223372036854775807)))
           / 10000000000"
proof -
  have first: "fst (ProcessLedger (NewProcessor test_config) (ledger_of mixed_reads 0))
      = Inr (mixed_metrics 0 10)"
    by (simp add: ProcessLedger_mixed rate_fresh)
  have second: "fst (ProcessLedger after_zero_block (ledger_of mixed_reads 10000000000))
      = Inr (mixed_metrics 10000000000 10)"
    by (simp add: ProcessLedger_mixed rate_after_zero)
  have far: "fst (ProcessLedger (later_processor 1000000000)
        (ledger_of mixed_reads 10000000001000000000))
      = Inr (mixed_metrics 10000000001000000000 (50000000000 / 9223372036854775807))"
    by (simp add: ProcessLedger_mixed rate_saturated)
  show ?thesis
    by (simp only: first second far)
       (simp add: after_zero_block_def ledger_of_def later_processor_def mixed_metrics_def)
qed



text \<open>
  C5. \<^verbatim>\<open>ProcessLedger\<close> returns an error exactly when no reader can be created for the
  ledger, or some read fails with a message that does not contain "unknown tx hash"; and
  it returns an error exactly when it returns no metrics.
\<close>

theorem error_exactly_when:
  "isl (fst (ProcessLedger p ledger)) =
     (case NewLedgerTransactionReader ledger (NetworkPassphrase p) of
        Inl err \<Rightarrow> True
      | Inr rs \<Rightarrow> list_ex is_fatal rs)
   \<and> isl (fst (ProcessLedger p ledger)) = (\<nexists>m. fst (ProcessLedger p ledger) = Inr m)"
proof -
  have "isl (fst (ProcessLedger p ledger)) = (\<nexists>m. fst (ProcessLedger p ledger) = Inr m)"
    by (cases "fst (ProcessLedger p ledger)") simp_all
  then show ?thesis
    by (simp only: ProcessLedger_isl)
qed

theorem error_exactly_when_witness:
  "fst (ProcessLedger (NewProcessor test_config) broken_ledger)
     = Inl ''error creating transaction reader: unsupported version''
   \<and> fst (ProcessLedger (NewProcessor test_config) fatal_ledger)
     = Inl ''error reading transaction: unexpected EOF''
   \<and> list_ex is_fatal fatal_reads
   \<and> fst (ProcessLedger (NewProcessor test_config) (ledger_of mixed_reads 1000000000))
     = Inr (mixed_metrics 1000000000 10)
   \<and> \<not> list_ex is_fatal mixed_reads"
proof -
  have broken: "fst (ProcessLedger (NewProcessor test_config) broken_ledger)
      = Inl ''error creating transaction reader: unsupported version''"
    by (simp add: ProcessLedger_def broken_ledger_def)
  have fatal: "fst (ProcessLedger (NewProcessor test_config) fatal_ledger)
      = Inl ''error reading transaction: unexpected EOF''"
    by (simp add: ProcessLedger_def fatal_ledger_def ledger_of_def fatal_reads_def)
  have mixed: "fst (ProcessLedger (NewProcessor test_config) (ledger_of mixed_reads 1000000000))
      = Inr (mixed_metrics 1000000000 10)"
    by (simp add: ProcessLedger_mixed rate_fresh)
  from error_exactly_when [of "NewProcessor test_config" fatal_ledger]
    error_exactly_when [of "NewProcessor test_config" "ledger_of mixed_reads 1000000000"]
    broken fatal mixed
  show ?thesis
    by (simp add: fatal_ledger_def ledger_of_def)
qed

text \<open>
  C6. \<^verbatim>\<open>hasSorobanTransaction\<close> answers true exactly when the extractor of the
  specification finds a descriptor: on a plain envelope in the extension of the transaction,
  on a fee-bump envelope in the extension of the inner transaction, never on another
  envelope. \<^verbatim>\<open>getSorobanMetrics\<close> then returns the fields of that descriptor. The
  Soroban transaction count of the returned metrics is the number of transactions read that
  have a descriptor, fee-bump transactions included.
\<close>

theorem resource_usage_extractor:
  "hasSorobanTransaction tx = (spec_resource_usage tx \<noteq> None)
   \<and> (\<forall>d. spec_resource_usage tx = Some d \<longrightarrow>
        getSorobanMetrics tx =
          \<lparr>resourceFee = ResourceFee d,
           instructions = Instructions (Resources d),
           readBytes = ReadBytes (Resources d),
           writeBytes = WriteBytes (Resources d)\<rparr>)
   \<and> hasSorobanTransaction \<lparr>Envelope = EnvelopeTypeTxV0 v0, Result = res\<rparr> = False
   \<and> (\<forall>rs m. NewLedgerTransactionReader ledger (NetworkPassphrase p) = Inr rs
         \<and> fst (ProcessLedger p ledger) = Inr m \<longrightarrow>
       SorobanTxCount m
         = int (length (filter (\<lambda>tx. spec_resource_usage tx \<noteq> None) (decoded rs))))"
proof -
  have counted: "SorobanTxCount m
      = int (length (filter (\<lambda>tx. spec_resource_usage tx \<noteq> None) (decoded rs)))"
    if reader: "NewLedgerTransactionReader ledger (NetworkPassphrase p) = Inr rs"
      and result: "fst (ProcessLedger p ledger) = Inr m" for rs m
  proof -
    from reader result obtain metrics where
      loop: "read_loop (initial_metrics ledger) rs = Inr metrics" and
      m: "m = metrics\<lparr>TransactionsPerSecond := rate p metrics\<rparr>"
      using ProcessLedger_reader by blast
    have "SorobanTxCount m = int (length (filter hasSorobanTransaction (decoded rs)))"
      using read_loop_SorobanTxCount [OF loop] by (simp add: m initial_metrics_def)
    also have "hasSorobanTransaction = (\<lambda>tx. spec_resource_usage tx \<noteq> None)"
      by (rule ext) (rule hasSoroban_spec)
    finally show ?thesis .
  qed
  have v0: "hasSorobanTransaction \<lparr>Envelope = EnvelopeTypeTxV0 v0, Result = res\<rparr> = False"
    by simp
  from hasSoroban_spec [of tx] getSorobanMetrics_spec [of tx] v0 counted
  show ?thesis by blast
qed

theorem resource_usage_extractor_witness:
  "spec_resource_usage fee_bump_soroban_tx = Some soroban_data
   \<and> hasSorobanTransaction fee_bump_soroban_tx
   \<and> getSorobanMetrics fee_bump_soroban_tx =
       \<lparr>resourceFee = 70, instructions = 5000, readBytes = 300, writeBytes = 200\<rparr>
   \<and> spec_resource_usage plain_soroban_tx = Some soroban_data
   \<and> hasSorobanTransaction plain_soroban_tx
   \<and> \<not> hasSorobanTransaction (plain_tx 3 True 100)
   \<and> NewLedgerTransactionReader (ledger_of mixed_reads 1000000000)
       (NetworkPassphrase (NewProcessor test_config)) = Inr mixed_reads
   \<and> fst (ProcessLedger (NewProcessor test_config) (ledger_of mixed_reads 1000000000))
       = Inr (mixed_metrics 1000000000 10)
   \<and> filter (\<lambda>tx. spec_resource_usage tx \<noteq> None) (decoded mixed_reads) = [fee_bump_soroban_tx]
   \<and> SorobanTxCount (mixed_metrics 1000000000 10) = 1"
proof -
  have fee_bump: "spec_resource_usage fee_bump_soroban_tx = Some soroban_data"
    by (simp add: spec_resource_usage_def fee_bump_soroban_tx_def)
  have plain: "spec_resource_usage plain_soroban_tx = Some soroban_data"
    by (simp add: spec_resource_usage_def plain_soroban_tx_def)
  have none: "spec_resource_usage (plain_tx 3 True 100) = None"
    by (simp add: spec_resource_usage_def plain_tx_def)
  have failed: "spec_resource_usage (plain_tx 3 False 100) = None"
    by (simp add: spec_resource_usage_def plain_tx_def)
  have other: "spec_resource_usage (plain_tx 49 True 100) = None"
    by (simp add: spec_resource_usage_def plain_tx_def)
  have reader: "NewLedgerTransactionReader (ledger_of mixed_reads 1000000000)
      (NetworkPassphrase (NewProcessor test_config)) = Inr mixed_reads"
    by (rule reader_mixed)
  have result: "fst (ProcessLedger (NewProcessor test_config) (ledger_of mixed_reads 1000000000))
      = Inr (mixed_metrics 1000000000 10)"
    by (simp add: ProcessLedger_mixed rate_fresh)
  have selected: "filter (\<lambda>tx. spec_resource_usage tx \<noteq> None) (decoded mixed_reads)
      = [fee_bump_soroban_tx]"
    by (simp add: mixed_reads_def fee_bump failed other)
  from resource_usage_extractor [of fee_bump_soroban_tx _ _ "ledger_of mixed_reads 1000000000"
      "NewProcessor test_config"]
    resource_usage_extractor [of plain_soroban_tx]
    resource_usage_extractor [of "plain_tx 3 True 100"]
    fee_bump plain none reader result selected
  show ?thesis
    by (simp add: soroban_data_def)
qed

text \<open>
  C7. Whenever \<^verbatim>\<open>ProcessLedger\<close> returns metrics, the successful operation count is at
  least 0 and at most the operation count of the transaction set; the latter sums the
  operation counts of all transactions read, the former those of the successful ones.
\<close>

theorem operation_counts_ordered:
  assumes "NewLedgerTransactionReader ledger (NetworkPassphrase p) = Inr rs"
    and "fst (ProcessLedger p ledger) = Inr m"
  shows "SuccessfulOperationCount m \<le> TxSetOperationCount m
    \<and> 0 \<le> SuccessfulOperationCount m
    \<and> TxSetOperationCount m = sum_list (map operation_count (decoded rs))
    \<and> SuccessfulOperationCount m
        = sum_list (map operation_count (filter is_successful (decoded rs)))"
proof -
  from assms obtain metrics where
    loop: "read_loop (initial_metrics ledger) rs = Inr metrics" and
    m: "m = metrics\<lparr>TransactionsPerSecond := rate p metrics\<rparr>"
    using ProcessLedger_reader by blast
  have all_ops: "TxSetOperationCount m = sum_list (map operation_count (decoded rs))"
    using read_loop_TxSetOperationCount [OF loop] by (simp add: m initial_metrics_def)
  have succ_ops: "SuccessfulOperationCount m
      = sum_list (map operation_count (filter is_successful (decoded rs)))"
    using read_loop_SuccessfulOperationCount [OF loop] by (simp add: m initial_metrics_def)
  have nonneg: "0 \<le> sum_list (map operation_count (filter is_successful txs))" for txs
    by (rule sum_list_nonneg) (auto simp: operation_count_def)
  have le: "sum_list (map operation_count (filter is_successful txs))
      \<le> sum_list (map operation_count txs)" for txs
    by (induction txs) (simp_all add: operation_count_def)
  from all_ops succ_ops nonneg [of "decoded rs"] le [of "decoded rs"] show ?thesis
    by simp
qed

theorem operation_counts_ordered_witness:
  "NewLedgerTransactionReader (ledger_of mixed_reads 1000000000)
     (NetworkPassphrase (NewProcessor test_config)) = Inr mixed_reads
   \<and> fst (ProcessLedger (NewProcessor test_config) (ledger_of mixed_reads 1000000000))
       = Inr (mixed_metrics 1000000000 10)
   \<and> TxSetOperationCount (mixed_metrics 1000000000 10) = 53
   \<and> SuccessfulOperationCount (mixed_metrics 1000000000 10) = 50
   \<and> sum_list (map operation_count (decoded mixed_reads)) = 53"
proof -
  have reader: "NewLedgerTransactionReader (ledger_of mixed_reads 1000000000)
      (NetworkPassphrase (NewProcessor test_config)) = Inr mixed_reads"
    by (rule reader_mixed)
  have result: "fst (ProcessLedger (NewProcessor test_config) (ledger_of mixed_reads 1000000000))
      = Inr (mixed_metrics 1000000000 10)"
    by (simp add: ProcessLedger_mixed rate_fresh)
  from operation_counts_ordered [OF reader result] reader result show ?thesis
    by (simp add: mixed_metrics_def)
qed

text \<open>
  C8. Whenever \<^verbatim>\<open>ProcessLedger\<close> returns metrics, the processor afterwards stores the
  close time of the ledger, whatever it stored before and whichever branch computed the
  rate; nothing else of the processor changes.
\<close>

theorem close_time_stored:
  assumes "fst (ProcessLedger p ledger) = Inr m"
  shows "PreviousLedgerCloseTime (snd (ProcessLedger p ledger)) = ledger_ClosedAt ledger
    \<and> ClosedAt m = ledger_ClosedAt ledger
    \<and> snd (ProcessLedger p ledger) = p\<lparr>PreviousLedgerCloseTime := ledger_ClosedAt ledger\<rparr>"
proof -
  from assms obtain rs metrics where
    loop: "read_loop (initial_metrics ledger) rs = Inr metrics" and
    m: "m = metrics\<lparr>TransactionsPerSecond := rate p metrics\<rparr>" and
    p': "snd (ProcessLedger p ledger) = p\<lparr>PreviousLedgerCloseTime := ClosedAt metrics\<rparr>"
    using ProcessLedger_Inr by blast
  have "ClosedAt metrics = ledger_ClosedAt ledger"
    using read_loop_ClosedAt [OF loop] by (simp add: initial_metrics_def)
  then show ?thesis by (simp add: m p')
qed

theorem close_time_stored_witness:
  "fst (ProcessLedger (NewProcessor test_config) (ledger_of mixed_reads 1000000000))
     = Inr (mixed_metrics 1000000000 10)
   \<and> PreviousLedgerCloseTime (NewProcessor test_config) = 0
   \<and> PreviousLedgerCloseTime
       (snd (ProcessLedger (NewProcessor test_config) (ledger_of mixed_reads 1000000000)))
       = 1000000000
   \<and> fst (ProcessLedger (later_processor 1000000000) (ledger_of mixed_reads 11000000000))
     = Inr (mixed_metrics 11000000000 5)
   \<and> PreviousLedgerCloseTime
       (snd (ProcessLedger (later_processor 1000000000) (ledger_of mixed_reads 11000000000)))
       = 11000000000
   \<and> fst (ProcessLedger (later_processor 1000000000) (ledger_of mixed_reads 500000000))
     = Inr (mixed_metrics 500000000 10)
   \<and> PreviousLedgerCloseTime
       (snd (ProcessLedger (later_processor 1000000000) (ledger_of mixed_reads 500000000)))
       = 500000000"
proof -
  have first: "fst (ProcessLedger (NewProcessor test_config) (ledger_of mixed_reads 1000000000))
      = Inr (mixed_metrics 1000000000 10)"
    by (simp add: ProcessLedger_mixed rate_fresh)
  have later: "fst (ProcessLedger (later_processor 1000000000) (ledger_of mixed_reads 11000000000))
      = Inr (mixed_metrics 11000000000 5)"
    by (simp add: ProcessLedger_mixed rate_later)
  have earlier: "fst (ProcessLedger (later_processor 1000000000) (ledger_of mixed_reads 500000000))
      = Inr (mixed_metrics 500000000 10)"
    by (simp add: ProcessLedger_mixed rate_later)
  have fresh: "PreviousLedgerCloseTime (NewProcessor test_config) = 0"
    by (simp add: NewProcessor_def zeroTime_def)
  from close_time_stored [OF first] close_time_stored [OF later] close_time_stored [OF earlier]
    first later earlier fresh
  show ?thesis
    by (simp add: ledger_of_def)
qed

text \<open>
  C9. Whenever \<^verbatim>\<open>ProcessLedger\<close> returns metrics, the skipped transaction count is 0.
\<close>

theorem skipped_tx_count_zero:
  assumes "fst (ProcessLedger p ledger) = Inr m"
  shows "SkippedTxCount m = 0"
proof -
  from assms obtain rs metrics where
    loop: "read_loop (initial_metrics ledger) rs = Inr metrics" and
    m: "m = metrics\<lparr>TransactionsPerSecond := rate p metrics\<rparr>"
    using ProcessLedger_Inr by blast
  show ?thesis
    using read_loop_SkippedTxCount [OF loop] by (simp add: m initial_metrics_def)
qed

theorem skipped_tx_count_zero_witness:
  "fst (ProcessLedger (NewProcessor test_config) (ledger_of mixed_reads 1000000000))
     = Inr (mixed_metrics 1000000000 10)
   \<and> SkippedTxCount (mixed_metrics 1000000000 10) = 0"
proof -
  have result: "fst (ProcessLedger (NewProcessor test_config) (ledger_of mixed_reads 1000000000))
      = Inr (mixed_metrics 1000000000 10)"
    by (simp add: ProcessLedger_mixed rate_fresh)
  from skipped_tx_count_zero [OF result] result show ?thesis
    by simp
qed

text \<open>
  C10. When \<^verbatim>\<open>ProcessLedger\<close> returns an error, the processor is unchanged.
\<close>

theorem error_keeps_state:
  assumes "isl (fst (ProcessLedger p ledger))"
  shows "snd (ProcessLedger p ledger) = p"
  using assms by (auto simp: ProcessLedger_def split: sum.splits)

theorem error_keeps_state_witness:
  "isl (fst (ProcessLedger (later_processor 1000000000) broken_ledger))
   \<and> snd (ProcessLedger (later_processor 1000000000) broken_ledger) = later_processor 1000000000
   \<and> isl (fst (ProcessLedger (later_processor 1000000000) fatal_ledger))
   \<and> snd (ProcessLedger (later_processor 1000000000) fatal_ledger) = later_processor 1000000000
   \<and> ledger_ClosedAt fatal_ledger \<noteq> PreviousLedgerCloseTime (later_processor 1000000000)"
proof -
  have broken: "isl (fst (ProcessLedger (later_processor 1000000000) broken_ledger))"
    by (simp add: ProcessLedger_def broken_ledger_def)
  have fatal: "isl (fst (ProcessLedger (later_processor 1000000000) fatal_ledger))"
    by (simp add: ProcessLedger_def fatal_ledger_def ledger_of_def fatal_reads_def)
  from error_keeps_state [OF broken] error_keeps_state [OF fatal] broken fatal
  show ?thesis
    by (simp add: fatal_ledger_def ledger_of_def later_processor_def)
qed

end
